theory Spec2Isabelle
  imports Complex_Main
begin

section \<open>ROI align in NCHW layout (topi/vision/rcnn/roi_align.py)\<close>

text \<open>
  The operator is written in a tensor-expression language: a tensor is a shape together
  with a rule that gives the value at every index. The embedding keeps that reading.
  Floating-point values are read as real numbers, so the rounding of floating-point
  arithmetic is outside this development. The adaptive sample counts are \<open>int32\<close>
  values obtained by a cast, and the cast is modelled with its range.
\<close>

subsection \<open>Data model\<close>

text \<open>A 4-D tensor \<open>[batch, channel, height, width]\<close>: its shape and its element rule.\<close>

record tensor4 =
  shape4 :: "int list"
  elem4 :: "nat \<Rightarrow> nat \<Rightarrow> int \<Rightarrow> int \<Rightarrow> real"

text \<open>A 3-D tensor \<open>[num_img, num_roi, 4]\<close>; a row is \<open>[w_start, h_start, w_end, h_end]\<close>.\<close>

record tensor3 =
  shape3 :: "int list"
  elem3 :: "nat \<Rightarrow> nat \<Rightarrow> nat \<Rightarrow> real"

text \<open>The 5-D result \<open>[num_img, num_roi, channel, pooled_size_h, pooled_size_w]\<close>.\<close>

record tensor5 =
  shape5 :: "int list"
  elem5 :: "nat \<Rightarrow> nat \<Rightarrow> nat \<Rightarrow> nat \<Rightarrow> nat \<Rightarrow> real"

text \<open>\<open>pooled_size\<close> is an int or a list/tuple of ints.\<close>

datatype pooled_size = PInt int | PSeq "int list"

text \<open>
  Unpacking a tuple of the wrong length raises \<open>ValueError\<close>; the expression language
  reports its own failures as \<open>TVMError\<close>.
\<close>

datatype error = ValueError | TVMError

subsection \<open>The bilinear sampler\<close>

definition clip :: "int \<Rightarrow> int \<Rightarrow> int" where
  "clip hi v = max 0 (min hi v)"

text \<open>
  Modelled from the spec: \<open>bilinear_sample_nchw\<close> is imported from \<open>topi.cpp.image\<close>,
  which is not among the sources. Section 4.1 describes it as standard 2-D bilinear
  interpolation against the four neighbouring integer grid points, clamped to the map's
  valid index range \<open>[0, max_y] \<times> [0, max_x]\<close> so that it never reads out of bounds.
\<close>

definition bilinear_sample_nchw ::
  "tensor4 \<Rightarrow> nat \<Rightarrow> nat \<Rightarrow> real \<Rightarrow> real \<Rightarrow> int \<Rightarrow> int \<Rightarrow> real" where
  "bilinear_sample_nchw data i c y x max_y max_x =
     (let y0 = clip max_y \<lfloor>y\<rfloor>;
          y1 = clip max_y \<lceil>y\<rceil>;
          y_lerp = y - of_int \<lfloor>y\<rfloor>;
          x0 = clip max_x \<lfloor>x\<rfloor>;
          x1 = clip max_x \<lceil>x\<rceil>;
          x_lerp = x - of_int \<lfloor>x\<rfloor>;
          A = elem4 data i c y0 x0;
          B = elem4 data i c y0 x1;
          C = elem4 data i c y1 x0;
          D = elem4 data i c y1 x1
      in A * (1 - x_lerp) * (1 - y_lerp) + B * x_lerp * (1 - y_lerp)
         + C * (1 - x_lerp) * y_lerp + D * x_lerp * y_lerp)"

text \<open>
  Line 62: the test on the unclamped coordinate. \<open>height\<close> and \<open>width\<close> are the
  extents read from \<open>data.shape\<close> on line 53.
\<close>

definition outside :: "tensor4 \<Rightarrow> real \<Rightarrow> real \<Rightarrow> bool" where
  "outside data y x =
     (let height = shape4 data ! 2; width = shape4 data ! 3
      in y < -1 \<or> x < -1 \<or> y > of_int height \<or> x > of_int width)"

text \<open>Lines 61 to 66, \<open>_bilinear\<close>.\<close>

definition bilinear :: "tensor4 \<Rightarrow> nat \<Rightarrow> nat \<Rightarrow> real \<Rightarrow> real \<Rightarrow> real" where
  "bilinear data i c y x =
     (let height = shape4 data ! 2; width = shape4 data ! 3;
          out = outside data y x;
          y' = max y 0;
          x' = max x 0;
          val = bilinear_sample_nchw data i c y' x' (height - 1) (width - 1)
      in if out then 0 else val)"

subsection \<open>One output element\<close>

text \<open>
  The local variables of \<open>_sample\<close> as they stand when line 95 is reached, that is
  after the start coordinates have been moved to the bin \<open>(ph, pw)\<close>.
\<close>

record locals =
  roi_start_h :: real
  roi_start_w :: real
  roi_end_h :: real
  roi_end_w :: real
  roi_h :: real
  roi_w :: real
  bin_h :: real
  bin_w :: real
  roi_bin_grid_h :: int
  roi_bin_grid_w :: int

text \<open>Lines 87 and 88: \<open>tvm.ceil\<close> rounds a float up to an integral float.\<close>

definition tvm_ceil :: "real \<Rightarrow> real" where
  "tvm_ceil v = of_int \<lceil>v\<rceil>"

text \<open>
  Lines 87 and 88: \<open>.astype('int32')\<close> converts a float to a 32-bit signed integer by
  truncation towards zero. A float whose truncation is no \<open>int32\<close> value has no exact
  conversion; the conversion instruction of the machine then gives the smallest
  \<open>int32\<close>, \<open>-2147483648\<close>.
\<close>

definition astype_int32 :: "real \<Rightarrow> int" where
  "astype_int32 v =
     (let t = (if 0 \<le> v then \<lfloor>v\<rfloor> else \<lceil>v\<rceil>)
      in if - (2 ^ 31) \<le> t \<and> t \<le> 2 ^ 31 - 1 then t else - (2 ^ 31))"

text \<open>Lines 69 to 94.\<close>

definition sample_locals ::
  "tensor3 \<Rightarrow> int \<Rightarrow> int \<Rightarrow> real \<Rightarrow> int \<Rightarrow> nat \<Rightarrow> nat \<Rightarrow> nat \<Rightarrow> nat \<Rightarrow> locals" where
  "sample_locals rois pooled_size_h pooled_size_w spatial_scale sample_ratio n i ph pw =
     (let rsw = elem3 rois n i 0;
          rsh = elem3 rois n i 1;
          rew = elem3 rois n i 2;
          reh = elem3 rois n i 3;
          rsh = rsh * spatial_scale;
          reh = reh * spatial_scale;
          rsw = rsw * spatial_scale;
          rew = rew * spatial_scale;
          rh = max (reh - rsh) 1;
          rw = max (rew - rsw) 1;
          bh = rh / of_int pooled_size_h;
          bw = rw / of_int pooled_size_w;
          gh = (if sample_ratio > 0 then sample_ratio
                else astype_int32 (tvm_ceil (rh / of_int pooled_size_h)));
          gw = (if sample_ratio > 0 then sample_ratio
                else astype_int32 (tvm_ceil (rw / of_int pooled_size_w)));
          rsh = rsh + of_nat ph * bh;
          rsw = rsw + of_nat pw * bw
      in \<lparr>roi_start_h = rsh, roi_start_w = rsw, roi_end_h = reh, roi_end_w = rew,
          roi_h = rh, roi_w = rw, bin_h = bh, bin_w = bw,
          roi_bin_grid_h = gh, roi_bin_grid_w = gw\<rparr>)"

text \<open>Lines 96 and 97: the coordinate handed to \<open>_bilinear\<close> for the sample \<open>(rh, rw)\<close>.\<close>

definition sample_y :: "locals \<Rightarrow> int \<Rightarrow> real" where
  "sample_y L rh =
     roi_start_h L + (of_int rh + 1) * bin_h L / (of_int (roi_bin_grid_h L) + 1)"

definition sample_x :: "locals \<Rightarrow> int \<Rightarrow> real" where
  "sample_x L rw =
     roi_start_w L + (of_int rw + 1) * bin_w L / (of_int (roi_bin_grid_w L) + 1)"

text \<open>
  \<open>tvm.reduce_axis((0, extent))\<close> ranges over \<open>0, ..., extent - 1\<close>, and
  \<open>tvm.max(e, axis=[rh, rw])\<close> folds the binary maximum over the values of \<open>e\<close>,
  starting from the reducer's identity element \<open>min_value(dtype)\<close>. That element is
  defined by the expression language, not by these sources, and is a parameter here.
\<close>

definition reduce_axis :: "int \<Rightarrow> int \<Rightarrow> int list" where
  "reduce_axis lo hi = [lo..hi - 1]"

definition reduce_values :: "(int \<Rightarrow> int \<Rightarrow> real) \<Rightarrow> int list \<Rightarrow> int list \<Rightarrow> real list" where
  "reduce_values e rhs rws = concat (map (\<lambda>rh. map (\<lambda>rw. e rh rw) rws) rhs)"

definition tvm_max :: "real \<Rightarrow> (int \<Rightarrow> int \<Rightarrow> real) \<Rightarrow> int list \<Rightarrow> int list \<Rightarrow> real" where
  "tvm_max min_value e rhs rws = fold max (reduce_values e rhs rws) min_value"

text \<open>Lines 68 to 98, \<open>_sample\<close>.\<close>

definition sample ::
  "real \<Rightarrow> tensor4 \<Rightarrow> tensor3 \<Rightarrow> int \<Rightarrow> int \<Rightarrow> real \<Rightarrow> int
   \<Rightarrow> nat \<Rightarrow> nat \<Rightarrow> nat \<Rightarrow> nat \<Rightarrow> nat \<Rightarrow> real" where
  "sample min_value data rois pooled_size_h pooled_size_w spatial_scale sample_ratio n i c ph pw =
     (let L = sample_locals rois pooled_size_h pooled_size_w spatial_scale sample_ratio n i ph pw;
          batch_index = n;
          rh = reduce_axis 0 (roi_bin_grid_h L);
          rw = reduce_axis 0 (roi_bin_grid_w L)
      in tvm_max min_value
           (\<lambda>rh rw. bilinear data batch_index c (sample_y L rh) (sample_x L rw)) rh rw)"

subsection \<open>The operator\<close>

text \<open>Lines 56 to 59: \<open>pooled_size\<close> is an int, or it is unpacked into two names.\<close>

definition unpack_pooled_size :: "pooled_size \<Rightarrow> error + int \<times> int" where
  "unpack_pooled_size pooled_size =
     (case pooled_size of
        PInt p \<Rightarrow> Inr (p, p)
      | PSeq [pooled_size_h, pooled_size_w] \<Rightarrow> Inr (pooled_size_h, pooled_size_w)
      | PSeq _ \<Rightarrow> Inl ValueError)"

text \<open>
  Line 100: \<open>tvm.compute\<close> calls \<open>_sample\<close> once, on symbolic indices, to build the
  expression of an output element, and then makes the tensor. Lines 81 and 82 divide
  by the pooled sizes, which are Python constants. The operator \<open>/\<close> of the expression
  language is not among the sources: it refuses to build a quotient whose divisor is
  the constant 0 (\<open>Divide by zero\<close>) and accepts every other constant divisor. The
  extents of the output are not examined.
\<close>

definition tvm_compute_sample ::
  "real \<Rightarrow> tensor4 \<Rightarrow> tensor3 \<Rightarrow> int list \<Rightarrow> int \<Rightarrow> int \<Rightarrow> real \<Rightarrow> int \<Rightarrow> error + tensor5" where
  "tvm_compute_sample min_value data rois shape pooled_size_h pooled_size_w spatial_scale sample_ratio =
     (if pooled_size_h = 0 then Inl TVMError
      else if pooled_size_w = 0 then Inl TVMError
      else Inr \<lparr>shape5 = shape,
                elem5 = sample min_value data rois pooled_size_h pooled_size_w
                          spatial_scale sample_ratio\<rparr>)"

text \<open>
  Lines 52 to 59 and 100: the shapes are unpacked (a tuple of the wrong length raises),
  \<open>pooled_size\<close> is read, and the result is the tensor whose element rule is \<open>_sample\<close>.
\<close>

definition roi_align_nchw ::
  "real \<Rightarrow> tensor4 \<Rightarrow> tensor3 \<Rightarrow> pooled_size \<Rightarrow> real \<Rightarrow> int \<Rightarrow> error + tensor5" where
  "roi_align_nchw min_value data rois pooled_size spatial_scale sample_ratio =
     (if length (shape4 data) \<noteq> 4 then Inl ValueError
      else if length (shape3 rois) \<noteq> 3 then Inl ValueError
      else
        let channel = shape4 data ! 1;
            num_img = shape3 rois ! 0;
            num_roi = shape3 rois ! 1
        in (case unpack_pooled_size pooled_size of
              Inl e \<Rightarrow> Inl e
            | Inr (pooled_size_h, pooled_size_w) \<Rightarrow>
                tvm_compute_sample min_value data rois
                  [num_img, num_roi, channel, pooled_size_h, pooled_size_w]
                  pooled_size_h pooled_size_w spatial_scale sample_ratio))"

subsection \<open>The geometry mapping as the specification words it\<close>

text \<open>
  Section 4.2 (ROIGeometryMapper): scale the four box coordinates, floor the extents at
  1.0, divide by the pooled sizes, and return \<open>(roi_start_h, roi_start_w, bin_h, bin_w)\<close>.
  This definition follows the specification, not the source; the source's \<open>sample\<close>
  is compared with it below.
\<close>

definition ROIGeometryMapper ::
  "real \<times> real \<times> real \<times> real \<Rightarrow> real \<Rightarrow> int \<Rightarrow> int \<Rightarrow> real \<times> real \<times> real \<times> real" where
  "ROIGeometryMapper box spatial_scale pooled_size_h pooled_size_w =
     (case box of (w_start, h_start, w_end, h_end) \<Rightarrow>
        let start_w = w_start * spatial_scale;
            start_h = h_start * spatial_scale;
            end_w = w_end * spatial_scale;
            end_h = h_end * spatial_scale;
            extent_h = max (end_h - start_h) 1;
            extent_w = max (end_w - start_w) 1
        in (start_h, start_w, extent_h / of_int pooled_size_h, extent_w / of_int pooled_size_w))"

text \<open>The row \<open>ROIBatch[n, i]\<close> as a box \<open>(w_start, h_start, w_end, h_end)\<close>.\<close>

definition roi_row :: "tensor3 \<Rightarrow> nat \<Rightarrow> nat \<Rightarrow> real \<times> real \<times> real \<times> real" where
  "roi_row rois n i = (elem3 rois n i 0, elem3 rois n i 1, elem3 rois n i 2, elem3 rois n i 3)"

subsection \<open>Concrete inputs\<close>

text \<open>The lowest finite single-precision value, which \<open>min_value('float32')\<close> denotes.\<close>

definition float32_lowest :: real where
  "float32_lowest = - (2 ^ 128 - 2 ^ 104)"

text \<open>Scenario A's feature map: \<open>1 \<times> 1 \<times> 4 \<times> 4\<close>, filled with 0..15 row-major.\<close>

definition scenario_map :: tensor4 where
  "scenario_map = \<lparr>shape4 = [1, 1, 4, 4], elem4 = (\<lambda>n c y x. of_int (4 * y + x))\<rparr>"

text \<open>A \<open>1 \<times> 1 \<times> 4 \<times> 4\<close> feature map whose every value is \<open>-1\<close>.\<close>

definition negative_map :: tensor4 where
  "negative_map = \<lparr>shape4 = [1, 1, 4, 4], elem4 = (\<lambda>n c y x. - 1)\<rparr>"

text \<open>A batch \<open>[1, 1, k]\<close> whose only row is the given list.\<close>

definition single_roi :: "real list \<Rightarrow> tensor3" where
  "single_roi row = \<lparr>shape3 = [1, 1, int (length row)], elem3 = (\<lambda>n i k. row ! k)\<rparr>"

text \<open>A batch \<open>[1, 2, 4]\<close>: row 0 is the given list, every entry of row 1 is \<open>v\<close>.\<close>

definition two_rois :: "real list \<Rightarrow> real \<Rightarrow> tensor3" where
  "two_rois row v = \<lparr>shape3 = [1, 2, 4], elem3 = (\<lambda>n i k. if i = 0 then row ! k else v)\<rparr>"

section \<open>Properties\<close>

lemmas roi_align_nchw_defs = roi_align_nchw_def unpack_pooled_size_def tvm_compute_sample_def

subsection \<open>The reduction\<close>

lemma fold_max_ge: "m \<le> fold max xs (m::real)"
proof (induction xs arbitrary: m)
  case Nil show ?case by simp
next
  case (Cons a xs)
  have "m \<le> max a m" by simp
  also have "\<dots> \<le> fold max xs (max a m)" by (rule Cons.IH)
  finally show ?case by simp
qed


lemma set_reduce_axis: "set (reduce_axis 0 g) = {0..<g}"
  by (auto simp: reduce_axis_def)

lemma set_reduce_values:
  "set (reduce_values e rhs rws) = (\<lambda>(rh, rw). e rh rw) ` (set rhs \<times> set rws)"
  by (auto simp: reduce_values_def)






lemma roi_align_nchw_elem:
  assumes "roi_align_nchw m data rois ps sc sr = Inr out"
  shows "elem5 out = sample m data rois (shape5 out ! 3) (shape5 out ! 4) sc sr"
  using assms unfolding roi_align_nchw_defs
  by (auto simp: Let_def split: if_splits pooled_size.splits list.splits sum.splits)

lemma fold_max_mem_ge: "x \<in> set xs \<Longrightarrow> x \<le> fold max xs (m::real)"
proof (induction xs arbitrary: m)
  case Nil then show ?case by simp
next
  case (Cons a xs)
  show ?case
  proof (cases "x \<in> set xs")
    case True then show ?thesis using Cons.IH by simp
  next
    case False
    with Cons.prems have "x = a" by simp
    then have "x \<le> max a m" by simp
    also have "\<dots> \<le> fold max xs (max a m)" by (rule fold_max_ge)
    finally show ?thesis by simp
  qed
qed

subsection \<open>Bounds on the sampler\<close>




lemma bilinear_outside: "outside data y x \<Longrightarrow> bilinear data i c y x = 0"
  by (simp add: bilinear_def Let_def)

subsection \<open>Sample counts\<close>







subsection \<open>Geometry\<close>

text \<open>
  Claim C5. After scaling the four coordinates, the extents used for binning are
  \<open>max (end - start) 1\<close>: they are at least 1, and exactly 1 for a degenerate box
  (\<open>end \<le> start\<close>). The scaled start is not clamped: the position used for bin
  \<open>(ph, pw)\<close> is the scaled start plus the bin offset, and may be negative.
\<close>

theorem roi_extent_floored_start_unchanged:
  "(let L = sample_locals rois pooled_size_h pooled_size_w spatial_scale sample_ratio n i ph pw;
        start_h = elem3 rois n i 1 * spatial_scale;
        start_w = elem3 rois n i 0 * spatial_scale;
        end_h = elem3 rois n i 3 * spatial_scale;
        end_w = elem3 rois n i 2 * spatial_scale
    in roi_h L = max (end_h - start_h) 1
     \<and> roi_w L = max (end_w - start_w) 1
     \<and> 1 \<le> roi_h L \<and> 1 \<le> roi_w L
     \<and> (end_h \<le> start_h \<longrightarrow> roi_h L = 1)
     \<and> (end_w \<le> start_w \<longrightarrow> roi_w L = 1)
     \<and> bin_h L = roi_h L / of_int pooled_size_h
     \<and> bin_w L = roi_w L / of_int pooled_size_w
     \<and> roi_start_h L = start_h + of_nat ph * bin_h L
     \<and> roi_start_w L = start_w + of_nat pw * bin_w L)"
  by (simp add: sample_locals_def Let_def)

theorem roi_extent_floored_start_unchanged_witness:
  "roi_h (sample_locals (single_roi [-6, -4, -8, -4]) 2 2 (1/2) (-1) 0 0 0 0) = 1
   \<and> roi_w (sample_locals (single_roi [-6, -4, -8, -4]) 2 2 (1/2) (-1) 0 0 0 0) = 1
   \<and> roi_start_h (sample_locals (single_roi [-6, -4, -8, -4]) 2 2 (1/2) (-1) 0 0 0 0) = -2
   \<and> roi_start_w (sample_locals (single_roi [-6, -4, -8, -4]) 2 2 (1/2) (-1) 0 0 0 0) = -3"
  using roi_extent_floored_start_unchanged[of "single_roi [-6, -4, -8, -4]" 2 2 "1/2" "-1" 0 0 0 0]
  by (simp add: sample_locals_def single_roi_def Let_def)

text \<open>
  Claim C3. The source's \<open>sample\<close> is the reduction, over \<open>rh\<close> in \<open>[0, grid_h)\<close> and
  \<open>rw\<close> in \<open>[0, grid_w)\<close>, of the bilinear sampler at
  \<open>y = roi_start_h + ph * bin_h + (rh + 1) * bin_h / (grid_h + 1)\<close> and
  \<open>x = roi_start_w + pw * bin_w + (rw + 1) * bin_w / (grid_w + 1)\<close>, where the start and
  the bin sizes are those of the geometry mapping of \<open>ROIBatch[n, i]\<close>, as the
  specification words it, and \<open>grid_h\<close>, \<open>grid_w\<close> are the sample counts of the bin.
\<close>

theorem sample_coordinates:
  "sample min_value data rois pooled_size_h pooled_size_w spatial_scale sample_ratio n i c ph pw =
     (case ROIGeometryMapper (roi_row rois n i) spatial_scale pooled_size_h pooled_size_w of
        (start_h, start_w, bh, bw) \<Rightarrow>
          (let L = sample_locals rois pooled_size_h pooled_size_w spatial_scale sample_ratio n i ph pw;
               grid_h = roi_bin_grid_h L;
               grid_w = roi_bin_grid_w L
           in tvm_max min_value
                (\<lambda>rh rw. bilinear data n c
                   (start_h + of_nat ph * bh + (of_int rh + 1) * bh / (of_int grid_h + 1))
                   (start_w + of_nat pw * bw + (of_int rw + 1) * bw / (of_int grid_w + 1)))
                (reduce_axis 0 grid_h) (reduce_axis 0 grid_w)))"
  by (simp add: sample_def sample_locals_def ROIGeometryMapper_def
      roi_row_def sample_y_def sample_x_def Let_def)

subsection \<open>Independence of the other ROIs\<close>

text \<open>
  Claim C7. Two runs on the same feature map and configuration whose ROI batches agree
  on the row \<open>(n, i)\<close> give the same value at \<open>Output[n, i, c, ph, pw]\<close>, whatever the
  other rows of the two batches hold.
\<close>

theorem output_depends_on_own_roi_row:
  assumes "roi_align_nchw min_value data rois pooled_size spatial_scale sample_ratio = Inr out"
    and "roi_align_nchw min_value data rois' pooled_size spatial_scale sample_ratio = Inr out'"
    and "roi_row rois n i = roi_row rois' n i"
  shows "elem5 out n i c ph pw = elem5 out' n i c ph pw"
proof -
  have sh: "shape5 out ! 3 = shape5 out' ! 3" "shape5 out ! 4 = shape5 out' ! 4"
    using assms(1,2) unfolding roi_align_nchw_defs
    by (auto simp: Let_def split: if_splits pooled_size.splits list.splits sum.splits)
  have "sample_locals rois (shape5 out ! 3) (shape5 out ! 4) spatial_scale sample_ratio n i ph pw
      = sample_locals rois' (shape5 out ! 3) (shape5 out ! 4) spatial_scale sample_ratio n i ph pw"
    using assms(3) by (simp add: sample_locals_def roi_row_def)
  then show ?thesis
    using roi_align_nchw_elem[OF assms(1)] roi_align_nchw_elem[OF assms(2)] sh
    by (simp add: sample_def)
qed

theorem output_depends_on_own_roi_row_witness:
  "elem3 (two_rois [0, 0, 3, 3] 1) 0 1 0 = 1 \<and> elem3 (two_rois [0, 0, 3, 3] 50) 0 1 0 = 50
   \<and> elem5 (projr (roi_align_nchw float32_lowest scenario_map (two_rois [0, 0, 3, 3] 1) (PInt 2) 1 1)) 0 0 0 1 1
   = elem5 (projr (roi_align_nchw float32_lowest scenario_map (two_rois [0, 0, 3, 3] 50) (PInt 2) 1 1)) 0 0 0 1 1"
proof -
  have a: "roi_align_nchw float32_lowest scenario_map (two_rois [0, 0, 3, 3] 1) (PInt 2) 1 1
        = Inr (projr (roi_align_nchw float32_lowest scenario_map (two_rois [0, 0, 3, 3] 1) (PInt 2) 1 1))"
    by (simp add: roi_align_nchw_defs scenario_map_def two_rois_def)
  have b: "roi_align_nchw float32_lowest scenario_map (two_rois [0, 0, 3, 3] 50) (PInt 2) 1 1
        = Inr (projr (roi_align_nchw float32_lowest scenario_map (two_rois [0, 0, 3, 3] 50) (PInt 2) 1 1))"
    by (simp add: roi_align_nchw_defs scenario_map_def two_rois_def)
  have c: "roi_row (two_rois [0, 0, 3, 3] 1) 0 0 = roi_row (two_rois [0, 0, 3, 3] 50) 0 0"
    by (simp add: two_rois_def roi_row_def)
  show ?thesis using output_depends_on_own_roi_row[OF a b c, of 0 1 1] by (simp add: two_rois_def)
qed

subsection \<open>The bilinear sampler and its zeroing test\<close>

text \<open>
  Claim C2, as stated, at a concrete input. On the 4-row map of scenario A the last
  valid row index is 3, and \<open>y = 3.5\<close> lies beyond it, yet the sampler returns 12 (the
  value of row 3 at column 0), not 0: line 62 compares with the extent \<open>height = 4\<close>.
\<close>

theorem bilinear_beyond_last_index_counterexample:
  "real_of_int (shape4 scenario_map ! 2 - 1) < 7/2 \<and> bilinear scenario_map 0 0 (7/2) 0 = 12"
  by (simp add: bilinear_def outside_def bilinear_sample_nchw_def clip_def Let_def scenario_map_def)

text \<open>
  Claim C2, amended. The sampler returns 0 exactly when the unclamped coordinate
  satisfies \<open>y < -1\<close>, \<open>x < -1\<close>, \<open>y > height\<close> or \<open>x > width\<close>, where \<open>height\<close> and
  \<open>width\<close> are the extents of the feature map (its sizes, not its last indices),
  whatever the map holds; otherwise it clamps \<open>y\<close> and \<open>x\<close> to be at least 0 and
  returns the bilinear interpolation with indices limited to \<open>height - 1\<close>, \<open>width - 1\<close>.
\<close>

theorem bilinear_zero_outside_else_interpolates:
  "bilinear data i c y x =
     (if y < -1 \<or> x < -1 \<or> y > of_int (shape4 data ! 2) \<or> x > of_int (shape4 data ! 3) then 0
      else bilinear_sample_nchw data i c (max y 0) (max x 0)
             (shape4 data ! 2 - 1) (shape4 data ! 3 - 1))"
  by (simp add: bilinear_def outside_def Let_def)

theorem bilinear_zero_outside_else_interpolates_witness:
  "bilinear scenario_map 0 0 (9/2) 0 = 0 \<and> bilinear scenario_map 0 0 (-1/2) (3/2) = 3/2"
  using bilinear_zero_outside_else_interpolates[of scenario_map 0 0 "9/2" 0]
        bilinear_zero_outside_else_interpolates[of scenario_map 0 0 "-1/2" "3/2"]
  by (simp add: scenario_map_def bilinear_sample_nchw_def clip_def Let_def)

subsection \<open>The reduction is a maximum\<close>




text \<open>
  Claim C10. If some sample point of the bin is out of range, the output element is
  at least 0: the sample is not skipped, it enters the maximum with the value 0.
\<close>

theorem out_of_range_sample_makes_output_nonnegative:
  assumes "roi_align_nchw min_value data rois pooled_size spatial_scale sample_ratio = Inr out"
    and "L = sample_locals rois (shape5 out ! 3) (shape5 out ! 4) spatial_scale sample_ratio n i ph pw"
    and "0 \<le> rh" "rh < roi_bin_grid_h L" "0 \<le> rw" "rw < roi_bin_grid_w L"
    and "outside data (sample_y L rh) (sample_x L rw)"
  shows "0 \<le> elem5 out n i c ph pw"
proof -
  let ?e = "\<lambda>rh rw. bilinear data n c (sample_y L rh) (sample_x L rw)"
  have "?e rh rw = 0" using assms(7) by (rule bilinear_outside)
  moreover have "?e rh rw \<in> set (reduce_values ?e (reduce_axis 0 (roi_bin_grid_h L))
                                   (reduce_axis 0 (roi_bin_grid_w L)))"
    unfolding set_reduce_values set_reduce_axis using assms(3-6) by auto
  ultimately have "0 \<le> tvm_max min_value ?e (reduce_axis 0 (roi_bin_grid_h L))
                          (reduce_axis 0 (roi_bin_grid_w L))"
    unfolding tvm_max_def using fold_max_mem_ge by metis
  then show ?thesis
    using roi_align_nchw_elem[OF assms(1)] by (simp add: sample_def assms(2) Let_def)
qed

theorem out_of_range_sample_makes_output_nonnegative_witness:
  "bilinear negative_map 0 0 (10/3) 1 = - 1
   \<and> 0 \<le> elem5 (projr (roi_align_nchw float32_lowest negative_map (single_roi [0, 2, 3, 6])
                           (PInt 1) 1 2)) 0 0 0 0 0"
proof -
  let ?out = "projr (roi_align_nchw float32_lowest negative_map (single_roi [0, 2, 3, 6]) (PInt 1) 1 2)"
  let ?L = "sample_locals (single_roi [0, 2, 3, 6]) (shape5 ?out ! 3) (shape5 ?out ! 4) 1 2 0 0 0 0"
  have a: "roi_align_nchw float32_lowest negative_map (single_roi [0, 2, 3, 6]) (PInt 1) 1 2 = Inr ?out"
    by (simp add: roi_align_nchw_defs negative_map_def single_roi_def)
  have sh: "shape5 ?out ! 3 = 1" "shape5 ?out ! 4 = 1"
    by (simp_all add: roi_align_nchw_defs negative_map_def single_roi_def)
  have g: "(0::int) \<le> 1" "1 < roi_bin_grid_h ?L" "(0::int) \<le> 0" "0 < roi_bin_grid_w ?L"
    unfolding sh by (simp_all add: sample_locals_def single_roi_def Let_def)
  have o: "outside negative_map (sample_y ?L 1) (sample_x ?L 0)"
    unfolding sh
    by (simp add: outside_def sample_y_def sample_x_def sample_locals_def single_roi_def
        negative_map_def Let_def)
  have v: "bilinear negative_map 0 0 (10/3) 1 = - 1"
    by (simp add: bilinear_def outside_def bilinear_sample_nchw_def clip_def Let_def
        negative_map_def)
  show ?thesis
    using out_of_range_sample_makes_output_nonnegative[OF a refl g o, of 0] v by simp
qed

subsection \<open>Errors\<close>

text \<open>
  Claim C6, as stated, at two concrete inputs. A ROI batch of shape \<open>[1, 1, 5]\<close> is
  rank-3 with trailing dimension 5, and the call does not fail: it returns the output
  tensor. A pooled size of \<open>-1\<close> is not positive, and the call returns the output
  tensor as well: nothing on lines 52 to 100 looks at the sign of a pooled size.
\<close>

theorem trailing_dimension_and_negative_size_unchecked_counterexample:
  "shape3 (single_roi [0, 0, 3, 3, 9]) = [1, 1, 5]
   \<and> \<not> isl (roi_align_nchw float32_lowest scenario_map (single_roi [0, 0, 3, 3, 9]) (PInt 2) 1 (-1))
   \<and> (- 1 :: int) \<le> 0
   \<and> \<not> isl (roi_align_nchw float32_lowest scenario_map (single_roi [0, 0, 3, 3]) (PInt (- 1)) 1 (-1))"
  by (simp add: roi_align_nchw_defs scenario_map_def single_roi_def)

text \<open>
  Claim C6, amended. If the feature map is not rank-4, or the ROI batch is not rank-3,
  or one of the two pooled sizes is 0, the call fails and returns no output tensor at
  all: the shape does not unpack (\<open>ValueError\<close>), or the bin size of lines 81 and 82
  cannot be built (\<open>TVMError\<close>).
\<close>

theorem wrong_rank_or_zero_size_fails_before_output:
  assumes "length (shape4 data) \<noteq> 4 \<or> length (shape3 rois) \<noteq> 3
         \<or> (unpack_pooled_size pooled_size = Inr (pooled_size_h, pooled_size_w)
            \<and> (pooled_size_h = 0 \<or> pooled_size_w = 0))"
  shows "roi_align_nchw min_value data rois pooled_size spatial_scale sample_ratio = Inl ValueError
       \<or> roi_align_nchw min_value data rois pooled_size spatial_scale sample_ratio = Inl TVMError"
  using assms by (auto simp: roi_align_nchw_def tvm_compute_sample_def Let_def)

theorem wrong_rank_or_zero_size_fails_before_output_witness:
  "roi_align_nchw float32_lowest \<lparr>shape4 = [1, 4, 4], elem4 = elem4 scenario_map\<rparr>
     (single_roi [0, 0, 3, 3]) (PInt 2) 1 (-1) = Inl ValueError
   \<and> roi_align_nchw float32_lowest scenario_map (single_roi [0, 0, 3, 3]) (PSeq [2, 0]) 1 (-1)
     = Inl TVMError"
proof -
  have u: "unpack_pooled_size (PSeq [2, 0]) = Inr (2, 0)" by (simp add: unpack_pooled_size_def)
  have z: "(2::int) = 0 \<or> (0::int) = 0" by simp
  have v: "roi_align_nchw float32_lowest scenario_map (single_roi [0, 0, 3, 3]) (PSeq [2, 0]) 1 (-1)
             \<noteq> Inl ValueError"
    by (simp add: roi_align_nchw_defs scenario_map_def single_roi_def)
  have w: "roi_align_nchw float32_lowest \<lparr>shape4 = [1, 4, 4], elem4 = elem4 scenario_map\<rparr>
             (single_roi [0, 0, 3, 3]) (PInt 2) 1 (-1) \<noteq> Inl TVMError"
    by (simp add: roi_align_nchw_defs)
  show ?thesis
    using wrong_rank_or_zero_size_fails_before_output[of "\<lparr>shape4 = [1, 4, 4], elem4 = elem4 scenario_map\<rparr>"
            "single_roi [0, 0, 3, 3]" "PInt 2" 2 2 float32_lowest 1 "-1"]
          wrong_rank_or_zero_size_fails_before_output[of scenario_map "single_roi [0, 0, 3, 3]"
            "PSeq [2, 0]" 2 0 float32_lowest 1 "-1", OF disjI2[OF disjI2[OF conjI[OF u z]]]]
          v w
    by simp
qed

subsection \<open>ROIs that lie outside the feature map\<close>







end
